theory Spec2Isabelle
  imports Complex_Main
begin

section \<open>The table of faust/tables/table.py\<close>

text \<open>
  A shallow embedding of class \<open>Table\<close> (faust/tables/table.py). The Python object is a
  record of its attributes; every method takes the table and returns the table it leaves
  behind, together with its result. An exception is a value \<open>Inl e\<close> in the result, and the
  table returned with it is the table as it stood when the exception was raised.

  The ambient call \<open>current_event()\<close> is made explicit: every hook takes the value
  \<open>ev\<close> that \<open>current_event()\<close> would return at that moment (\<open>None\<close> outside stream
  iteration), whether it reads it or not.
\<close>

subsection \<open>Data\<close>

type_synonym seconds = real
type_synonym window_id = int

text \<open>The exceptions of the source: \<open>TypeError\<close> (the spec's NoActiveContext) and
  \<open>KeyError\<close> (the spec's KeyNotFound). \<open>InvalidWindowPolicy\<close> is named by the spec only.\<close>

datatype 'k error = TypeError string | KeyError 'k | InvalidWindowPolicy

text \<open>\<open>event.message.partition\<close>: the event that drives the current stream iteration.\<close>

record message =
  partition_no :: int
  timestamp :: seconds
  offset :: int

record event =
  message :: message

text \<open>The two window policies of the spec, section 4.2 (module \<open>faust.windows\<close>).\<close>

datatype window =
    Tumbling seconds "seconds option"
  | Hopping seconds seconds "seconds option"

record window_wrapper =
  key_index :: bool

text \<open>A changelog record: key, value or tombstone (\<open>None\<close>), partition, and the
  \<open>value_serializer\<close> argument (\<open>None\<close> when the caller leaves the default).\<close>

record ('k, 'v) changelog_record =
  rec_key :: 'k
  rec_value :: "'v option"
  rec_partition :: int
  rec_serializer :: "string option"

text \<open>What the table does to its collaborators, in the order it does it.\<close>

datatype ('k, 'v) effect =
    Store_Set 'k 'v
  | Store_Del 'k
  | Changelog_Emit "('k, 'v) changelog_record"
  | TTL_Set_Key 'k int
  | TTL_Del_Key 'k int
  | Sensor_On_Get 'k
  | Sensor_On_Set 'k 'v
  | Sensor_On_Del 'k

text \<open>
  The attributes of a table. \<open>data\<close> is the backing store, \<open>default_f\<close> the attribute
  \<open>default\<close> (a zero-argument factory, or \<open>None\<close>), \<open>changelog_compacting\<close>,
  \<open>changelog_deleting\<close> and \<open>changelog_topic\<close> the attributes \<open>_changelog_compacting\<close>,
  \<open>_changelog_deleting\<close> and \<open>_changelog_topic\<close>. \<open>expiry\<close> holds the expiry entries
  (partition, WindowId) \<open>\<mapsto>\<close> deadline, \<open>trace\<close> the effects so far, oldest first, and
  \<open>logged\<close> the lines given to the module's logger.

  Modelled from the spec: \<open>window_of_key\<close>, the WindowId under which a physical key of a
  windowed table is stored (section 3: a windowed entry is keyed by (logical key, window
  id)); the key layout belongs to the wrappers module, which is not among the sources.
\<close>

record ('k, 'v) table =
  data :: "'k \<rightharpoonup> 'v"
  default_f :: "(unit \<Rightarrow> 'v) option"
  window :: "window option"
  changelog_compacting :: bool
  changelog_deleting :: bool
  changelog_topic :: "string option"
  window_of_key :: "'k \<Rightarrow> window_id"
  expiry :: "(int \<times> window_id) \<rightharpoonup> seconds"
  trace :: "('k, 'v) effect list"
  logged :: "string list"

subsection \<open>Collaborators that are not among the sources\<close>

text \<open>Modelled from the spec: the constructors \<open>windows.HoppingWindow\<close> and
  \<open>windows.TumblingWindow\<close> (module \<open>faust.windows\<close>). Section 7: InvalidWindowPolicy is
  raised at window-configuration time if \<open>step > size\<close> or negative durations are
  supplied; section 4.2: \<open>expires\<close> omitted means no TTL.\<close>

definition negative_duration :: "seconds option \<Rightarrow> bool" where
  "negative_duration d = (case d of None \<Rightarrow> False | Some x \<Rightarrow> x < 0)"

definition HoppingWindow :: "seconds \<Rightarrow> seconds \<Rightarrow> seconds option \<Rightarrow> 'k error + window" where
  "HoppingWindow sz stp ex =
     (if sz < stp \<or> sz < 0 \<or> stp < 0 \<or> negative_duration ex
      then Inl InvalidWindowPolicy
      else Inr (Hopping sz stp ex))"

definition TumblingWindow :: "seconds \<Rightarrow> seconds option \<Rightarrow> 'k error + window" where
  "TumblingWindow sz ex =
     (if sz < 0 \<or> negative_duration ex
      then Inl InvalidWindowPolicy
      else Inr (Tumbling sz ex))"

text \<open>Modelled from the spec: the window policy's \<open>expires\<close> and the expiry deadline of
  a window (section 4.2): \<open>(w+1)*size + expires\<close> for Tumbling, \<open>w*step + size + expires\<close>
  for Hopping, none when \<open>expires\<close> is unset.\<close>

fun deadline :: "window \<Rightarrow> window_id \<Rightarrow> seconds option" where
  "deadline (Tumbling sz ex) w = map_option (\<lambda>e. (of_int w + 1) * sz + e) ex"
| "deadline (Hopping sz stp ex) w = map_option (\<lambda>e. of_int w * stp + sz + e) ex"

text \<open>Modelled from the spec: the constructor of \<open>wrappers.WindowWrapper\<close>; it builds the
  wrapper around the table and does not touch the table.\<close>

definition WindowWrapper :: "('k, 'v) table \<Rightarrow> bool \<Rightarrow> window_wrapper" where
  "WindowWrapper t ki = \<lparr>key_index = ki\<rparr>"

text \<open>Modelled from the spec: \<open>Collection._send_changelog\<close> (base class, not among the
  sources). Section 2: the ChangelogEmitter appends a mutation record (key,
  value-or-tombstone, partition, serializer-mode); section 4.1: tagged with the
  EventContext's partition. The event is the one the caller hands over.\<close>

definition send_changelog ::
  "event \<Rightarrow> 'k \<Rightarrow> 'v option \<Rightarrow> string option \<Rightarrow> ('k, 'v) table \<Rightarrow> ('k, 'v) table" where
  "send_changelog e key val ser t =
     t\<lparr>trace := trace t @
        [Changelog_Emit \<lparr>rec_key = key, rec_value = val,
           rec_partition = partition_no (message e), rec_serializer = ser\<rparr>]\<rparr>"

text \<open>Modelled from the spec: \<open>Collection._maybe_set_key_ttl\<close> and
  \<open>Collection._maybe_del_key_ttl\<close> (base class, not among the sources). Section 4.4: on
  every set/delete through TableCore for a windowed table with finite \<open>expires\<close>, an
  ExpiryEntry is inserted (or its deadline refreshed) for the affected (partition,
  WindowId); without a window or without \<open>expires\<close> the bookkeeping is a no-op.\<close>

definition touch_expiry :: "'k \<Rightarrow> int \<Rightarrow> ('k, 'v) table \<Rightarrow> ('k, 'v) table" where
  "touch_expiry key p t =
     (case window t of
        None \<Rightarrow> t
      | Some w \<Rightarrow>
          (case deadline w (window_of_key t key) of
             None \<Rightarrow> t
           | Some d \<Rightarrow> t\<lparr>expiry := (expiry t)((p, window_of_key t key) \<mapsto> d)\<rparr>))"

definition maybe_set_key_ttl :: "'k \<Rightarrow> int \<Rightarrow> ('k, 'v) table \<Rightarrow> ('k, 'v) table" where
  "maybe_set_key_ttl key p t = touch_expiry key p (t\<lparr>trace := trace t @ [TTL_Set_Key key p]\<rparr>)"

definition maybe_del_key_ttl :: "'k \<Rightarrow> int \<Rightarrow> ('k, 'v) table \<Rightarrow> ('k, 'v) table" where
  "maybe_del_key_ttl key p t = touch_expiry key p (t\<lparr>trace := trace t @ [TTL_Del_Key key p]\<rparr>)"

text \<open>Modelled from the spec: the sensor callbacks \<open>_sensor_on_get\<close>, \<open>_sensor_on_set\<close>
  and \<open>_sensor_on_del\<close> (section 6: \<open>on_get(table, key)\<close>, \<open>on_set(table, key, value)\<close>,
  \<open>on_delete(table, key)\<close>; purely observational).\<close>

definition sensor_on_get :: "('k, 'v) table \<Rightarrow> 'k \<Rightarrow> ('k, 'v) table" where
  "sensor_on_get t key = t\<lparr>trace := trace t @ [Sensor_On_Get key]\<rparr>"

definition sensor_on_set :: "('k, 'v) table \<Rightarrow> 'k \<Rightarrow> 'v \<Rightarrow> ('k, 'v) table" where
  "sensor_on_set t key val = t\<lparr>trace := trace t @ [Sensor_On_Set key val]\<rparr>"

definition sensor_on_del :: "('k, 'v) table \<Rightarrow> 'k \<Rightarrow> ('k, 'v) table" where
  "sensor_on_del t key = t\<lparr>trace := trace t @ [Sensor_On_Del key]\<rparr>"

text \<open>\<open>logger.info\<close>: a line for the module's logger (the elapsed time it formats is read
  from the wall clock and is not part of the table).\<close>

definition logger_info :: "string \<Rightarrow> ('k, 'v) table \<Rightarrow> ('k, 'v) table" where
  "logger_info line t = t\<lparr>logged := logged t @ [line]\<rparr>"

subsection \<open>The methods of \<open>Table\<close>\<close>

text \<open>\<open>using_window\<close>, lines 27-34.\<close>

definition using_window ::
  "('k, 'v) table \<Rightarrow> window \<Rightarrow> bool \<Rightarrow> window_wrapper \<times> ('k, 'v) table" where
  "using_window t w ki =
     (let t1 = t\<lparr>window := Some w\<rparr>;
          t2 = t1\<lparr>changelog_compacting := True\<rparr>;
          t3 = t2\<lparr>changelog_deleting := True\<rparr>;
          t4 = t3\<lparr>changelog_topic := None\<rparr>
      in (WindowWrapper t4 ki, t4))"

text \<open>\<open>hopping\<close>, lines 36-43, and \<open>tumbling\<close>, lines 45-52: the window is built first, as
  the argument of \<open>using_window\<close>; an exception of its constructor leaves the table as it
  was.\<close>

definition hopping ::
  "('k, 'v) table \<Rightarrow> seconds \<Rightarrow> seconds \<Rightarrow> seconds option \<Rightarrow> bool
     \<Rightarrow> ('k error + window_wrapper) \<times> ('k, 'v) table" where
  "hopping t sz stp ex ki =
     (case HoppingWindow sz stp ex of
        Inl e \<Rightarrow> (Inl e, t)
      | Inr w \<Rightarrow> (case using_window t w ki of (wr, t') \<Rightarrow> (Inr wr, t')))"

definition tumbling ::
  "('k, 'v) table \<Rightarrow> seconds \<Rightarrow> seconds option \<Rightarrow> bool
     \<Rightarrow> ('k error + window_wrapper) \<times> ('k, 'v) table" where
  "tumbling t sz ex ki =
     (case TumblingWindow sz ex of
        Inl e \<Rightarrow> (Inl e, t)
      | Inr w \<Rightarrow> (case using_window t w ki of (wr, t') \<Rightarrow> (Inr wr, t')))"

text \<open>\<open>__missing__\<close>, lines 54-57.\<close>

definition missing :: "('k, 'v) table \<Rightarrow> 'k \<Rightarrow> ('k error + 'v) \<times> ('k, 'v) table" where
  "missing t key =
     (case default_f t of
        Some f \<Rightarrow> (Inr (f ()), t)
      | None \<Rightarrow> (Inl (KeyError key), t))"

text \<open>\<open>on_key_get\<close>, lines 71-73.\<close>

definition on_key_get ::
  "event option \<Rightarrow> ('k, 'v) table \<Rightarrow> 'k \<Rightarrow> ('k error + unit) \<times> ('k, 'v) table" where
  "on_key_get ev t key = (Inr (), sensor_on_get t key)"

text \<open>\<open>on_key_set\<close>, lines 75-86. \<open>start = time.time()\<close> reads the wall clock for the
  log line and has no effect.\<close>

definition on_key_set ::
  "event option \<Rightarrow> ('k, 'v) table \<Rightarrow> 'k \<Rightarrow> 'v \<Rightarrow> ('k error + unit) \<times> ('k, 'v) table" where
  "on_key_set ev t key val =
     (case ev of
        None \<Rightarrow> (Inl (TypeError ''Setting table key from outside of stream iteration''), t)
      | Some e \<Rightarrow>
          (let t1 = send_changelog e key (Some val) None t;
               p = partition_no (message e);
               t2 = maybe_set_key_ttl key p t1;
               t3 = sensor_on_set t2 key val;
               t4 = logger_info ''on_key_set took %ss'' t3
           in (Inr (), t4)))"

text \<open>\<open>on_key_del\<close>, lines 88-97.\<close>

definition on_key_del ::
  "event option \<Rightarrow> ('k, 'v) table \<Rightarrow> 'k \<Rightarrow> ('k error + unit) \<times> ('k, 'v) table" where
  "on_key_del ev t key =
     (case ev of
        None \<Rightarrow> (Inl (TypeError ''Deleting table key from outside of stream iteration''), t)
      | Some e \<Rightarrow>
          (let t1 = send_changelog e key None (Some ''raw'') t;
               p = partition_no (message e);
               t2 = maybe_del_key_ttl key p t1;
               t3 = sensor_on_del t2 key
           in (Inr (), t3)))"

subsection \<open>The mapping protocol\<close>

text \<open>Modelled from the spec: \<open>__getitem__\<close>, \<open>__setitem__\<close> and \<open>__delitem__\<close> of the
  mapping base class, which is not among the sources (section 4.1, TableCore).
  \<open>get\<close>: returns the stored value; if absent, the outcome of \<open>__missing__\<close>; notifies
  the sensors of the read regardless of hit or miss.
  \<open>set\<close>: requires an active EventContext and fails otherwise; on success applies the
  mutation to the backing store, then emits the changelog record, updates the TTL
  bookkeeping and notifies the sensors, which is the hook \<open>on_key_set\<close>.
  \<open>delete\<close>: the same with the hook \<open>on_key_del\<close>.\<close>

definition getitem ::
  "event option \<Rightarrow> ('k, 'v) table \<Rightarrow> 'k \<Rightarrow> ('k error + 'v) \<times> ('k, 'v) table" where
  "getitem ev t key =
     (case on_key_get ev t key of
        (Inl e, t1) \<Rightarrow> (Inl e, t1)
      | (Inr u, t1) \<Rightarrow>
          (case data t1 key of
             Some v \<Rightarrow> (Inr v, t1)
           | None \<Rightarrow> missing t1 key))"

definition setitem ::
  "event option \<Rightarrow> ('k, 'v) table \<Rightarrow> 'k \<Rightarrow> 'v \<Rightarrow> ('k error + unit) \<times> ('k, 'v) table" where
  "setitem ev t key val =
     (case ev of
        None \<Rightarrow> (Inl (TypeError ''Setting table key from outside of stream iteration''), t)
      | Some e \<Rightarrow>
          on_key_set ev
            (t\<lparr>data := (data t)(key \<mapsto> val), trace := trace t @ [Store_Set key val]\<rparr>)
            key val)"

definition delitem ::
  "event option \<Rightarrow> ('k, 'v) table \<Rightarrow> 'k \<Rightarrow> ('k error + unit) \<times> ('k, 'v) table" where
  "delitem ev t key =
     (case ev of
        None \<Rightarrow> (Inl (TypeError ''Deleting table key from outside of stream iteration''), t)
      | Some e \<Rightarrow>
          on_key_del ev
            (t\<lparr>data := (data t)(key := None), trace := trace t @ [Store_Del key]\<rparr>)
            key)"

text \<open>\<open>_get_key\<close>, \<open>_set_key\<close> and \<open>_del_key\<close>, lines 62-69: \<open>self[key]\<close>,
  \<open>self[key] = value\<close> and \<open>del self[key]\<close>.\<close>

definition get_key ::
  "event option \<Rightarrow> ('k, 'v) table \<Rightarrow> 'k \<Rightarrow> ('k error + 'v) \<times> ('k, 'v) table" where
  "get_key ev t key = getitem ev t key"

definition set_key ::
  "event option \<Rightarrow> ('k, 'v) table \<Rightarrow> 'k \<Rightarrow> 'v \<Rightarrow> ('k error + unit) \<times> ('k, 'v) table" where
  "set_key ev t key val = setitem ev t key val"

definition del_key ::
  "event option \<Rightarrow> ('k, 'v) table \<Rightarrow> 'k \<Rightarrow> ('k error + unit) \<times> ('k, 'v) table" where
  "del_key ev t key = delitem ev t key"

subsection \<open>Observations\<close>

text \<open>The changelog of a table: the records emitted so far, oldest first.\<close>

fun emitted :: "('k, 'v) effect \<Rightarrow> ('k, 'v) changelog_record list" where
  "emitted (Changelog_Emit r) = [r]"
| "emitted (Store_Set k v) = []"
| "emitted (Store_Del k) = []"
| "emitted (TTL_Set_Key k p) = []"
| "emitted (TTL_Del_Key k p) = []"
| "emitted (Sensor_On_Get k) = []"
| "emitted (Sensor_On_Set k v) = []"
| "emitted (Sensor_On_Del k) = []"

definition changelog :: "('k, 'v) table \<Rightarrow> ('k, 'v) changelog_record list" where
  "changelog t = concat (map emitted (trace t))"

text \<open>The \<open>expires\<close> of a window policy.\<close>

fun expires_of :: "window \<Rightarrow> seconds option" where
  "expires_of (Tumbling sz ex) = ex"
| "expires_of (Hopping sz stp ex) = ex"

text \<open>The life of a table after its configuration: a sequence of reads, writes and
  deletes, each made under the event current at that moment; an exception goes to the
  caller and the table lives on.\<close>

datatype ('k, 'v) call = Get_Key 'k | Set_Key 'k 'v | Del_Key 'k

fun call_table :: "event option \<Rightarrow> ('k, 'v) call \<Rightarrow> ('k, 'v) table \<Rightarrow> ('k, 'v) table" where
  "call_table ev (Get_Key k) t = snd (get_key ev t k)"
| "call_table ev (Set_Key k v) t = snd (set_key ev t k v)"
| "call_table ev (Del_Key k) t = snd (del_key ev t k)"

fun run_calls :: "(event option \<times> ('k, 'v) call) list \<Rightarrow> ('k, 'v) table \<Rightarrow> ('k, 'v) table" where
  "run_calls [] t = t"
| "run_calls ((ev, c) # cs) t = run_calls cs (call_table ev c t)"

subsection \<open>Concrete inputs\<close>

text \<open>A fresh table without default or window, keyed by integers (a key is its own
  WindowId), and an event of partition 2 at timestamp 100.\<close>

abbreviation (input) fresh_table :: "(int, nat) table" where
  "fresh_table \<equiv>
     \<lparr>data = Map.empty, default_f = None, window = None,
      changelog_compacting = False, changelog_deleting = False,
      changelog_topic = Some ''changelog'',
      window_of_key = (\<lambda>k. k), expiry = Map.empty, trace = [], logged = []\<rparr>"

abbreviation (input) event_p2 :: event where
  "event_p2 \<equiv> \<lparr>message = \<lparr>partition_no = 2, timestamp = 100, offset = 0\<rparr>\<rparr>"

section \<open>Context gating\<close>

text \<open>
  C1. With no active event (\<open>current_event()\<close> returns \<open>None\<close>), the set path and the
  delete path raise \<open>TypeError\<close> (the spec's NoActiveContext) for every key and value, and
  the table they leave behind is the table they were given: the backing store, the
  changelog, the expiry entries and the sensors are untouched.
\<close>

theorem no_active_context_rejects_mutation:
  "on_key_set None t key val =
     (Inl (TypeError ''Setting table key from outside of stream iteration''), t)
   \<and> on_key_del None t key =
     (Inl (TypeError ''Deleting table key from outside of stream iteration''), t)"
  by (simp add: on_key_set_def on_key_del_def)

text \<open>The same holds one level up, for \<open>self[key] = value\<close> and \<open>del self[key]\<close> as the
  spec describes them.\<close>

lemma set_key_del_key_without_event:
  "set_key None t key val =
     (Inl (TypeError ''Setting table key from outside of stream iteration''), t)"
  "del_key None t key =
     (Inl (TypeError ''Deleting table key from outside of stream iteration''), t)"
  by (simp_all add: set_key_def del_key_def setitem_def delitem_def)

section \<open>What a successful set or delete does\<close>

lemmas collaborator_defs = send_changelog_def maybe_set_key_ttl_def maybe_del_key_ttl_def
  sensor_on_set_def sensor_on_del_def sensor_on_get_def logger_info_def

lemma trace_touch_expiry: "trace (touch_expiry key p t) = trace t"
  by (simp add: touch_expiry_def split: option.splits)

lemma window_touch_expiry: "window (touch_expiry key p t) = window t"
  by (simp add: touch_expiry_def split: option.splits)

lemma flags_touch_expiry:
  "changelog_compacting (touch_expiry key p t) = changelog_compacting t"
  "changelog_deleting (touch_expiry key p t) = changelog_deleting t"
  by (simp_all add: touch_expiry_def split: option.splits)

lemma trace_on_key_set:
  "trace (snd (on_key_set (Some e) t key val)) =
     trace t @
       [Changelog_Emit \<lparr>rec_key = key, rec_value = Some val,
          rec_partition = partition_no (message e), rec_serializer = None\<rparr>,
        TTL_Set_Key key (partition_no (message e)),
        Sensor_On_Set key val]"
  by (simp add: on_key_set_def Let_def collaborator_defs trace_touch_expiry)

lemma trace_on_key_del:
  "trace (snd (on_key_del (Some e) t key)) =
     trace t @
       [Changelog_Emit \<lparr>rec_key = key, rec_value = None,
          rec_partition = partition_no (message e), rec_serializer = Some ''raw''\<rparr>,
        TTL_Del_Key key (partition_no (message e)),
        Sensor_On_Del key]"
  by (simp add: on_key_del_def Let_def collaborator_defs trace_touch_expiry)

lemma on_key_set_returns: "fst (on_key_set (Some e) t key val) = Inr ()"
  by (simp add: on_key_set_def Let_def)

lemma on_key_del_returns: "fst (on_key_del (Some e) t key) = Inr ()"
  by (simp add: on_key_del_def Let_def)

text \<open>
  C2. Every successful set and every successful delete (one made under an active event)
  returns normally, and its effects are, in this order: the mutation of the backing
  store, the changelog record, the TTL bookkeeping, the sensor notification. The hooks
  \<open>on_key_set\<close> and \<open>on_key_del\<close> give the last three in this order; that the store
  mutation comes first is the spec's \<open>set\<close> and \<open>delete\<close>.
\<close>

theorem set_delete_effect_order:
  "fst (set_key (Some e) t key val) = Inr ()
   \<and> trace (snd (set_key (Some e) t key val)) =
       trace t @
         [Store_Set key val,
          Changelog_Emit \<lparr>rec_key = key, rec_value = Some val,
            rec_partition = partition_no (message e), rec_serializer = None\<rparr>,
          TTL_Set_Key key (partition_no (message e)),
          Sensor_On_Set key val]
   \<and> fst (del_key (Some e) t key) = Inr ()
   \<and> trace (snd (del_key (Some e) t key)) =
       trace t @
         [Store_Del key,
          Changelog_Emit \<lparr>rec_key = key, rec_value = None,
            rec_partition = partition_no (message e), rec_serializer = Some ''raw''\<rparr>,
          TTL_Del_Key key (partition_no (message e)),
          Sensor_On_Del key]"
proof -
  have "set_key (Some e) t key val =
      on_key_set (Some e)
        (t\<lparr>data := (data t)(key \<mapsto> val), trace := trace t @ [Store_Set key val]\<rparr>) key val"
    by (simp add: set_key_def setitem_def)
  moreover have "del_key (Some e) t key =
      on_key_del (Some e)
        (t\<lparr>data := (data t)(key := None), trace := trace t @ [Store_Del key]\<rparr>) key"
    by (simp add: del_key_def delitem_def)
  ultimately show ?thesis
    by (simp add: on_key_set_returns on_key_del_returns trace_on_key_set trace_on_key_del)
qed

lemma changelog_append:
  "trace t' = trace t @ es \<Longrightarrow> changelog t' = changelog t @ concat (map emitted es)"
  by (simp add: changelog_def)

lemma changelog_on_key_set:
  "changelog (snd (on_key_set (Some e) t key val)) =
     changelog t @ [\<lparr>rec_key = key, rec_value = Some val,
        rec_partition = partition_no (message e), rec_serializer = None\<rparr>]"
  using changelog_append [OF trace_on_key_set] by simp

lemma changelog_on_key_del:
  "changelog (snd (on_key_del (Some e) t key)) =
     changelog t @ [\<lparr>rec_key = key, rec_value = None,
        rec_partition = partition_no (message e), rec_serializer = Some ''raw''\<rparr>]"
  using changelog_append [OF trace_on_key_del] by simp

text \<open>
  C3. A set or a delete made under the event \<open>e\<close> adds exactly one record to the
  changelog, and the partition of that record is \<open>e.message.partition\<close>, the partition of
  the event active at the call; the partitions of the earlier records stay as they were.
\<close>

theorem changelog_record_carries_event_partition:
  "map rec_partition (changelog (snd (on_key_set (Some e) t key val))) =
     map rec_partition (changelog t) @ [partition_no (message e)]
   \<and> map rec_partition (changelog (snd (on_key_del (Some e) t key))) =
     map rec_partition (changelog t) @ [partition_no (message e)]"
  by (simp add: changelog_on_key_set changelog_on_key_del)

text \<open>
  C6. A delete made under an active event emits a tombstone: the record's value is
  absent (\<open>None\<close>) and its serializer is \<open>raw\<close>; a set emits a value record, which carries
  the value written and leaves the serializer at its default.
\<close>

theorem delete_emits_raw_tombstone:
  "map (\<lambda>r. (rec_key r, rec_value r, rec_serializer r))
       (changelog (snd (on_key_del (Some e) t key))) =
     map (\<lambda>r. (rec_key r, rec_value r, rec_serializer r)) (changelog t)
       @ [(key, None, Some ''raw'')]
   \<and> map (\<lambda>r. (rec_key r, rec_value r, rec_serializer r))
       (changelog (snd (on_key_set (Some e) t key val))) =
     map (\<lambda>r. (rec_key r, rec_value r, rec_serializer r)) (changelog t)
       @ [(key, Some val, None)]"
  unfolding changelog_on_key_set changelog_on_key_del by simp

section \<open>Reading\<close>

text \<open>
  C4. For a key that is absent from the backing store: with a default factory \<open>f\<close>
  configured, \<open>__missing__\<close> and with it the read return the freshly computed \<open>f ()\<close>, and
  the backing store after the read is the store before it, so the key is still absent;
  with no default configured they raise \<open>KeyError\<close> (the spec's KeyNotFound) for that key.
\<close>

theorem absent_key_reads_default_or_fails:
  assumes "data t key = None"
  shows "(default_f t = Some f \<longrightarrow>
            missing t key = (Inr (f ()), t)
            \<and> fst (get_key ev t key) = Inr (f ())
            \<and> data (snd (get_key ev t key)) = data t
            \<and> data (snd (get_key ev t key)) key = None)
         \<and> (default_f t = None \<longrightarrow>
            missing t key = (Inl (KeyError key), t)
            \<and> fst (get_key ev t key) = Inl (KeyError key)
            \<and> data (snd (get_key ev t key)) = data t)"
  using assms
  by (simp add: get_key_def getitem_def on_key_get_def sensor_on_get_def missing_def)

theorem absent_key_reads_default_or_fails_witness:
  "fst (get_key None (fresh_table\<lparr>default_f := Some (\<lambda>u. 7)\<rparr>) 3) = Inr 7
   \<and> data (snd (get_key None (fresh_table\<lparr>default_f := Some (\<lambda>u. 7)\<rparr>) 3)) 3 = None
   \<and> fst (get_key None fresh_table 3) = Inl (KeyError 3)"
  using absent_key_reads_default_or_fails
          [of "fresh_table\<lparr>default_f := Some (\<lambda>u. 7)\<rparr>" 3 "\<lambda>u. 7" None]
        absent_key_reads_default_or_fails [of fresh_table 3 "\<lambda>u. 7" None]
  by simp

text \<open>
  C9. Reading is not gated: whatever \<open>current_event()\<close> would return, \<open>on_key_get\<close>
  returns normally, its outcome is the one it has with no event at all, and it notifies
  the sensor of the read; the read as a whole never raises \<open>TypeError\<close> (the spec's
  NoActiveContext). With no event, \<open>on_key_set\<close> and \<open>on_key_del\<close> do raise.
\<close>

theorem get_needs_no_event:
  "on_key_get ev t key = (Inr (), t\<lparr>trace := trace t @ [Sensor_On_Get key]\<rparr>)
   \<and> on_key_get ev t key = on_key_get None t key
   \<and> fst (get_key ev t key) \<noteq> Inl (TypeError msg)
   \<and> isl (fst (on_key_set None t key val))
   \<and> isl (fst (on_key_del None t key))"
proof -
  have hook: "on_key_get ev' t key = (Inr (), t\<lparr>trace := trace t @ [Sensor_On_Get key]\<rparr>)"
    for ev' :: "event option"
    by (simp add: on_key_get_def sensor_on_get_def)
  have "fst (get_key ev t key) \<noteq> Inl (TypeError msg)"
    by (simp add: get_key_def getitem_def hook missing_def split: option.splits)
  moreover have "isl (fst (on_key_set None t key val))" "isl (fst (on_key_del None t key))"
    by (simp_all add: on_key_set_def on_key_del_def)
  ultimately show ?thesis by (simp add: hook)
qed

section \<open>Window configuration\<close>

lemma snd_get_key: "snd (get_key ev t key) = sensor_on_get t key"
  by (simp add: get_key_def getitem_def on_key_get_def missing_def split: option.splits)

lemma window_call_table:
  "window (call_table ev c t) = window t
   \<and> changelog_compacting (call_table ev c t) = changelog_compacting t
   \<and> changelog_deleting (call_table ev c t) = changelog_deleting t"
  by (cases c; cases ev)
     (simp_all add: snd_get_key set_key_def setitem_def
        del_key_def delitem_def on_key_set_def on_key_del_def Let_def collaborator_defs
        window_touch_expiry flags_touch_expiry)

lemma window_run_calls:
  "window (run_calls cs t) = window t
   \<and> changelog_compacting (run_calls cs t) = changelog_compacting t
   \<and> changelog_deleting (run_calls cs t) = changelog_deleting t"
proof (induction cs arbitrary: t)
  case Nil
  show ?case by simp
next
  case (Cons a cs)
  obtain ev c where a: "a = (ev, c)" by (cases a)
  show ?case
    using Cons.IH [of "call_table ev c t"] window_call_table [of ev c t]
    by (simp add: a)
qed

lemma snd_hopping:
  fixes t :: "('k, 'v) table"
  shows "snd (hopping t sz stp ex ki) =
     (case (HoppingWindow sz stp ex :: 'k error + window) of
        Inl err \<Rightarrow> t
      | Inr hw \<Rightarrow> snd (using_window t hw ki))"
  by (simp add: hopping_def split: sum.splits prod.splits)

lemma snd_tumbling:
  fixes t :: "('k, 'v) table"
  shows "snd (tumbling t sz ex ki) =
     (case (TumblingWindow sz ex :: 'k error + window) of
        Inl err \<Rightarrow> t
      | Inr tw \<Rightarrow> snd (using_window t tw ki))"
  by (simp add: tumbling_def split: sum.splits prod.splits)

text \<open>
  C5, as the code has it. \<open>using_window\<close> stores the window it is given and sets the
  compacting and deleting flags; reads, writes and deletes made afterwards, in any number
  and under any events, leave the window and both flags as they are. The window is not
  immutable: \<open>using_window\<close> assigns \<open>self.window\<close> each time it is called, so a later
  wrapping call replaces the window. \<open>hopping\<close> and \<open>tumbling\<close> do to the table what
  \<open>using_window\<close> does with the window they build, and nothing if it is not built.
\<close>

theorem window_kept_until_rewrapped:
  fixes t :: "('k, 'v) table"
  shows "window (run_calls cs (snd (using_window t w ki))) = Some w
   \<and> changelog_compacting (run_calls cs (snd (using_window t w ki)))
   \<and> changelog_deleting (run_calls cs (snd (using_window t w ki)))
   \<and> window (snd (using_window (run_calls cs (snd (using_window t w ki))) w' ki')) = Some w'
   \<and> snd (hopping t sz stp ex ki) =
       (case (HoppingWindow sz stp ex :: 'k error + window) of
          Inl err \<Rightarrow> t
        | Inr hw \<Rightarrow> snd (using_window t hw ki))
   \<and> snd (tumbling t sz ex ki) =
       (case (TumblingWindow sz ex :: 'k error + window) of
          Inl err \<Rightarrow> t
        | Inr tw \<Rightarrow> snd (using_window t tw ki))"
proof -
  have "window (snd (using_window t w ki)) = Some w"
    "changelog_compacting (snd (using_window t w ki))"
    "changelog_deleting (snd (using_window t w ki))"
    by (simp_all add: using_window_def Let_def)
  moreover have "window (snd (using_window t' w' ki')) = Some w'" for t' :: "('k, 'v) table"
    by (simp add: using_window_def Let_def)
  ultimately show ?thesis
    by (simp add: window_run_calls snd_hopping snd_tumbling)
qed

text \<open>C5 as stated fails: a table wrapped in a tumbling window of 60 seconds and then
  wrapped again in one of 30 seconds no longer has the first window.\<close>

theorem window_not_immutable:
  "window (snd (using_window fresh_table (Tumbling 60 None) False)) = Some (Tumbling 60 None)
   \<and> window (snd (using_window (snd (using_window fresh_table (Tumbling 60 None) False))
        (Tumbling 30 None) False)) \<noteq> Some (Tumbling 60 None)"
  by (simp add: using_window_def Let_def)

text \<open>
  C10. \<open>using_window\<close> changes four attributes of the table and nothing else: the table
  it leaves is the table it was given with \<open>window\<close> set to the new window, both changelog
  flags set and the cached changelog topic reset to \<open>None\<close>. The stored key/value pairs,
  the default, the expiry entries and everything emitted so far are unchanged, also when
  the wrapping goes through \<open>hopping\<close> or \<open>tumbling\<close>.
\<close>

theorem using_window_frame:
  "snd (using_window t w ki) =
     t\<lparr>window := Some w, changelog_compacting := True, changelog_deleting := True,
       changelog_topic := None\<rparr>
   \<and> data (snd (using_window t w ki)) = data t
   \<and> default_f (snd (using_window t w ki)) = default_f t
   \<and> window_of_key (snd (using_window t w ki)) = window_of_key t
   \<and> expiry (snd (using_window t w ki)) = expiry t
   \<and> trace (snd (using_window t w ki)) = trace t
   \<and> logged (snd (using_window t w ki)) = logged t
   \<and> changelog_topic (snd (using_window t w ki)) = None
   \<and> data (snd (hopping t sz stp ex ki)) = data t
   \<and> trace (snd (hopping t sz stp ex ki)) = trace t
   \<and> expiry (snd (hopping t sz stp ex ki)) = expiry t
   \<and> data (snd (tumbling t sz ex ki)) = data t
   \<and> trace (snd (tumbling t sz ex ki)) = trace t
   \<and> expiry (snd (tumbling t sz ex ki)) = expiry t"
proof -
  have frame: "snd (using_window t w0 ki) =
      t\<lparr>window := Some w0, changelog_compacting := True, changelog_deleting := True,
        changelog_topic := None\<rparr>" for w0
    by (simp add: using_window_def Let_def)
  show ?thesis
    by (simp add: frame snd_hopping snd_tumbling split: sum.splits)
qed

text \<open>
  C8. A hopping window whose step exceeds its size, and a hopping or tumbling window
  with a negative size, step or \<open>expires\<close>, is refused when the table is configured:
  \<open>hopping\<close> and \<open>tumbling\<close> raise InvalidWindowPolicy themselves and leave the table as it
  was, with no window set. (\<open>using_window\<close> is handed a window that its constructor has
  already built.)
\<close>

theorem invalid_window_policy_raised_at_configuration:
  "(sz < stp \<or> sz < 0 \<or> stp < 0 \<or> (\<exists>x. ex = Some x \<and> x < 0) \<longrightarrow>
      hopping t sz stp ex ki = (Inl InvalidWindowPolicy, t))
   \<and> (sz < 0 \<or> (\<exists>x. ex = Some x \<and> x < 0) \<longrightarrow>
      tumbling t sz ex ki = (Inl InvalidWindowPolicy, t))"
proof -
  have "negative_duration ex" if "ex = Some x" "x < 0" for x
    using that by (simp add: negative_duration_def)
  then show ?thesis
    by (auto simp: hopping_def tumbling_def HoppingWindow_def TumblingWindow_def)
qed

theorem invalid_window_policy_raised_at_configuration_witness:
  "hopping fresh_table 20 60 None False = (Inl InvalidWindowPolicy, fresh_table)
   \<and> hopping fresh_table 60 20 (Some (- 1)) False = (Inl InvalidWindowPolicy, fresh_table)
   \<and> tumbling fresh_table (- 60) None False = (Inl InvalidWindowPolicy, fresh_table)"
  using invalid_window_policy_raised_at_configuration [of 20 60 None fresh_table False]
    invalid_window_policy_raised_at_configuration [of 60 20 "Some (- 1)" fresh_table False]
    invalid_window_policy_raised_at_configuration [of "- 60" 20 None fresh_table False]
  by simp

section \<open>TTL bookkeeping\<close>

lemma deadline_finite: "expires_of w = Some x \<Longrightarrow> \<exists>d. deadline w i = Some d"
  by (cases w) simp_all

text \<open>
  C7. On a windowed table whose window has a finite \<open>expires\<close>, a set and a delete made
  under the event \<open>e\<close> both leave an expiry entry for (partition of \<open>e\<close>, WindowId of the
  key), and its deadline is the deadline of that window.
\<close>

theorem set_and_delete_touch_expiry_entry:
  assumes "window t = Some w" and "expires_of w = Some x"
  shows "expiry (snd (on_key_set (Some e) t key val))
             (partition_no (message e), window_of_key t key)
           = deadline w (window_of_key t key)
     \<and> expiry (snd (on_key_del (Some e) t key))
             (partition_no (message e), window_of_key t key)
           = deadline w (window_of_key t key)
     \<and> deadline w (window_of_key t key) \<noteq> None"
proof -
  obtain d where d: "deadline w (window_of_key t key) = Some d"
    using deadline_finite [OF assms(2)] by blast
  have "expiry (snd (on_key_set (Some e) t key val))
          (partition_no (message e), window_of_key t key) = Some d"
    using assms(1) d
    by (simp add: on_key_set_def Let_def collaborator_defs touch_expiry_def)
  moreover have "expiry (snd (on_key_del (Some e) t key))
          (partition_no (message e), window_of_key t key) = Some d"
    using assms(1) d
    by (simp add: on_key_del_def Let_def collaborator_defs touch_expiry_def)
  ultimately show ?thesis using d by simp
qed

theorem set_and_delete_touch_expiry_entry_witness:
  "expiry (snd (on_key_set (Some event_p2)
       (fresh_table\<lparr>window := Some (Tumbling 60 (Some 30))\<rparr>) 1 5)) (2, 1) = Some 150
   \<and> expiry (snd (on_key_del (Some event_p2)
       (fresh_table\<lparr>window := Some (Tumbling 60 (Some 30))\<rparr>) 1)) (2, 1) = Some 150"
  using set_and_delete_touch_expiry_entry
    [of "fresh_table\<lparr>window := Some (Tumbling 60 (Some 30))\<rparr>" "Tumbling 60 (Some 30)" 30
        event_p2 1 5]
  by simp

end
